theory Spec2Isabelle
  imports Complex_Main "HOL-Library.Product_Lexorder"
begin

section \<open>Resource monitor: a shallow embedding of \<open>main.py\<close>\<close>

text \<open>
  The program samples CPU and RAM usage once per second, appends each sample to a CSV
  file named after the monitor's day identifier, and at the stop time renders a chart,
  mails chart and log, and deletes both files.

  Conventions of the embedding.
  \<^item> The attributes of \<open>UsageMonitor\<close> are a record; a method takes the record and
    returns the updated one where it assigns an attribute.
  \<^item> The file system and the mail server are an explicit \<open>world\<close> that every
    effectful function takes and returns. A file is the string of its bytes.
  \<^item> An exception is the \<open>Inl\<close> of a sum; the world at the moment of the raise is
    returned beside it, since no handler rolls anything back.
  \<^item> What the operating system and the clock answer (the readings of
    \<open>datetime.now()\<close>, of \<open>psutil\<close>, the outcome of the SMTP session) is input.
  \<^item> A Python float is the rational number it denotes. What the interpreter and the
    libraries do with floats (printing, parsing, the rounded mean) is a parameter of
    the model (record \<open>runtime\<close>), as is the platform's line separator.
\<close>

subsection \<open>Errors\<close>

text \<open>
  The Python exceptions the modelled paths can raise. \<open>OutsideModel\<close> is not a Python
  exception: a library function of the model answers it on an input whose treatment by
  the real library (pandas' tokenizer and type inference, \<open>strptime\<close>) is not
  described here. No theorem below reads \<open>OutsideModel\<close> as a behaviour of the program.
\<close>

datatype py_error =
    FileNotFoundError string
  | KeyError string
  | TypeError
  | GPUtilError
  | OSError
  | SMTPError string
  | OutsideModel

subsection \<open>Wall-clock readings and \<open>strftime\<close>\<close>

record datetime =
  year :: nat
  month :: nat
  day :: nat
  hour :: nat
  minute :: nat
  second :: nat

definition digit_char :: "nat \<Rightarrow> char" where
  "digit_char d = char_of (48 + d)"

text \<open>\<open>%m\<close>, \<open>%d\<close>, \<open>%H\<close>, \<open>%M\<close>, \<open>%S\<close>: two digits, zero padded.\<close>

definition pad2 :: "nat \<Rightarrow> string" where
  "pad2 n = [digit_char (n div 10 mod 10), digit_char (n mod 10)]"

text \<open>\<open>%Y\<close>: four digits (years from 1000 on; \<open>datetime.now()\<close> is far beyond).\<close>

definition pad4 :: "nat \<Rightarrow> string" where
  "pad4 n = pad2 (n div 100) @ pad2 (n mod 100)"

text \<open>\<open>strftime("%Y-%m-%d")\<close>\<close>

definition strftime_date :: "datetime \<Rightarrow> string" where
  "strftime_date t = pad4 (year t) @ ''-'' @ pad2 (month t) @ ''-'' @ pad2 (day t)"

text \<open>\<open>strftime("%H:%M:%S")\<close>\<close>

definition strftime_time :: "datetime \<Rightarrow> string" where
  "strftime_time t = pad2 (hour t) @ '':'' @ pad2 (minute t) @ '':'' @ pad2 (second t)"

text \<open>\<open>strftime("%Y-%m-%d %H:%M:%S")\<close>\<close>

definition strftime_datetime :: "datetime \<Rightarrow> string" where
  "strftime_datetime t = strftime_date t @ '' '' @ strftime_time t"

text \<open>
  A Python \<open>datetime\<close> object always denotes a real calendar instant; a reading of the
  clock is such an object.
\<close>

definition is_leap :: "nat \<Rightarrow> bool" where
  "is_leap y = (y mod 4 = 0 \<and> (y mod 100 \<noteq> 0 \<or> y mod 400 = 0))"

definition days_in_month :: "nat \<Rightarrow> nat \<Rightarrow> nat" where
  "days_in_month y m =
     (if m = 2 then (if is_leap y then 29 else 28)
      else if m = 4 \<or> m = 6 \<or> m = 9 \<or> m = 11 then 30 else 31)"

definition valid_datetime :: "datetime \<Rightarrow> bool" where
  "valid_datetime t =
     (1678 \<le> year t \<and> year t \<le> 2261 \<and> 1 \<le> month t \<and> month t \<le> 12 \<and>
      1 \<le> day t \<and> day t \<le> days_in_month (year t) (month t) \<and>
      hour t < 24 \<and> minute t < 60 \<and> second t < 60)"

subsection \<open>The Python runtime and the libraries, as parameters\<close>

text \<open>
  A chart is the data handed to \<open>plt.plot\<close>: the resampled index (minutes since the
  epoch) with the RAM and the CPU series, \<open>None\<close> being pandas' NaN.
\<close>

type_synonym chart = "(int \<times> rat option \<times> rat option) list"

record runtime =
  float_str :: "rat \<Rightarrow> string"            \<comment> \<open>\<open>str(x)\<close> of a float\<close>
  float_parse :: "string \<Rightarrow> rat option"   \<comment> \<open>pandas' conversion of a field to float64\<close>
  float_mean :: "rat list \<Rightarrow> rat"          \<comment> \<open>pandas' float64 mean of a group that is not empty\<close>
  list_str :: "string list \<Rightarrow> string"     \<comment> \<open>\<open>str(xs)\<close> of a list of strings\<close>
  linesep :: string                      \<comment> \<open>\<open>os.linesep\<close>\<close>
  savefig :: "chart \<Rightarrow> string"            \<comment> \<open>the bytes matplotlib writes for a figure\<close>
  imghdr :: "string \<Rightarrow> bool"              \<comment> \<open>whether \<open>MIMEImage\<close> can guess the image type\<close>

definition csv_special :: "char \<Rightarrow> bool" where
  "csv_special c = (c = CHR '','' \<or> c = CHR 0x22 \<or> c = CHR 0x0D \<or> c = CHR 0x0A)"

text \<open>
  What proofs about a log assume of the runtime, value by value: the printed float
  contains none of the characters the CSV layer treats specially and pandas parses it
  back to the same float.
\<close>

definition float_ok :: "runtime \<Rightarrow> rat \<Rightarrow> bool" where
  "float_ok rt x =
     (float_parse rt (float_str rt x) = Some x \<and> \<not> list_ex csv_special (float_str rt x))"

subsection \<open>The monitor and the world\<close>

record monitor =
  email :: string
  password :: string
  recipient_emails :: "string list"
  today :: string

text \<open>\<open>UsageMonitor.__init__\<close>; \<open>now\<close> is the reading of \<open>datetime.now()\<close>.\<close>

definition UsageMonitor :: "string \<Rightarrow> string \<Rightarrow> string list \<Rightarrow> datetime \<Rightarrow> monitor" where
  "UsageMonitor e p rs now =
     \<lparr>email = e, password = p, recipient_emails = rs, today = strftime_date now\<rparr>"

text \<open>
  A MIME message: the headers, the text part, and the attached parts as
  (file name, payload).
\<close>

record message =
  msg_from :: string
  msg_to :: string
  msg_subject :: string
  msg_body :: string
  msg_parts :: "(string \<times> string) list"

record world =
  files :: "string \<rightharpoonup> string"
  outbox :: "message list"

text \<open>The name \<open>f'usage_{self.today}.csv'\<close>.\<close>

definition log_path :: "monitor \<Rightarrow> string" where
  "log_path m = ''usage_'' @ today m @ ''.csv''"

subsection \<open>The Recorder: \<open>get_usage\<close> and \<open>write_to_csv\<close>\<close>

text \<open>What \<open>psutil\<close> and the clock answer at one call of \<open>get_usage\<close>.\<close>

record usage_reading =
  psutil_cpu :: rat
  psutil_ram :: rat
  usage_now :: datetime

definition get_usage :: "usage_reading \<Rightarrow> string \<times> rat \<times> rat" where
  "get_usage u =
     (let cpu_percent = psutil_cpu u;
          ram_percent = psutil_ram u;
          timestamp = strftime_datetime (usage_now u)
      in (timestamp, ram_percent, cpu_percent))"

text \<open>
  \<open>csv.writer\<close> with the default dialect: a field is quoted (the quote character
  doubled) when it contains the delimiter, the quote character or a character of the
  line terminator; fields are joined by commas and the row ends with CR LF.
\<close>

definition csv_field :: "string \<Rightarrow> string" where
  "csv_field s =
     (if list_ex csv_special s
      then [CHR 0x22] @ concat (map (\<lambda>c. if c = CHR 0x22 then [c, c] else [c]) s) @ [CHR 0x22]
      else s)"

fun join :: "string \<Rightarrow> string list \<Rightarrow> string" where
  "join sep [] = []"
| "join sep [x] = x"
| "join sep (x # y # ys) = x @ sep @ join sep (y # ys)"

definition writerow :: "string list \<Rightarrow> string" where
  "writerow row = join '','' (map csv_field row) @ [CHR 0x0D, CHR 0x0A]"

text \<open>
  \<open>open(path, mode='a', newline='')\<close>: the file is created when absent, the text is
  put after what it holds, and no newline translation happens.
\<close>

definition append_file :: "string \<Rightarrow> string \<Rightarrow> world \<Rightarrow> world" where
  "append_file path s w =
     w\<lparr>files := (files w)(path \<mapsto> (case files w path of None \<Rightarrow> s | Some old \<Rightarrow> old @ s))\<rparr>"

definition write_to_csv :: "runtime \<Rightarrow> monitor \<Rightarrow> string \<Rightarrow> rat \<Rightarrow> rat \<Rightarrow> world \<Rightarrow> world" where
  "write_to_csv rt m timestamp ram cpu w =
     append_file (log_path m) (writerow [timestamp, float_str rt ram, float_str rt cpu]) w"

text \<open>
  The first two statements of the loop body, \<open>get_usage\<close> then \<open>write_to_csv\<close>, run
  for a sequence of readings: the appends of one day.
\<close>

fun record_all :: "runtime \<Rightarrow> monitor \<Rightarrow> usage_reading list \<Rightarrow> world \<Rightarrow> world" where
  "record_all rt m [] w = w"
| "record_all rt m (u # us) w =
     (case get_usage u of
        (timestamp, ram, cpu) \<Rightarrow> record_all rt m us (write_to_csv rt m timestamp ram cpu w))"

subsection \<open>Reading the log: \<open>pd.read_csv(path, names=["Timestamp", "RAM", "CPU"])\<close>\<close>

text \<open>
  The tokenizer ends a line at LF, at CR and at CR LF (\<open>cr\<close> says that the character
  before was a CR, whose LF is then swallowed); a last line needs no terminator.
\<close>

fun lines_acc :: "bool \<Rightarrow> string \<Rightarrow> string \<Rightarrow> string list" where
  "lines_acc cr cur [] = (if cur = [] then [] else [rev cur])"
| "lines_acc cr cur (c # cs) =
     (if c = CHR 0x0A then
        (if cr then lines_acc False cur cs else rev cur # lines_acc False [] cs)
      else if c = CHR 0x0D then rev cur # lines_acc True [] cs
      else lines_acc False (c # cur) cs)"

fun split_on :: "char \<Rightarrow> string \<Rightarrow> string list" where
  "split_on d [] = [[]]"
| "split_on d (c # cs) =
     (if c = d then [] # split_on d cs
      else (case split_on d cs of [] \<Rightarrow> [[c]] | p # ps \<Rightarrow> (c # p) # ps))"

text \<open>
  The data frame of a log, row by row: the \<open>Timestamp\<close> column holds strings, the
  \<open>RAM\<close> and \<open>CPU\<close> columns hold floats.
\<close>

type_synonym frame = "(string \<times> rat \<times> rat) list"

text \<open>
  A row the model covers has exactly three fields; the first contains a colon (so that
  pandas infers neither a number, a boolean nor a missing value and keeps the column
  as strings) and the other two convert to floats.
\<close>

definition parse_row :: "runtime \<Rightarrow> string list \<Rightarrow> (string \<times> rat \<times> rat) option" where
  "parse_row rt row =
     (case row of
        [ts, r, c] \<Rightarrow>
          (if CHR '':'' \<in> set ts then
             (case float_parse rt r of
                None \<Rightarrow> None
              | Some x \<Rightarrow> (case float_parse rt c of None \<Rightarrow> None | Some y \<Rightarrow> Some (ts, x, y)))
           else None)
      | _ \<Rightarrow> None)"

text \<open>
  Blank lines are skipped. The column names being given, a file with no row at all is
  not an error: it reads as the frame with the three columns and no row. Quoted fields
  and rows of another shape are outside the model.
\<close>

definition parse_csv :: "runtime \<Rightarrow> string \<Rightarrow> py_error + frame" where
  "parse_csv rt content =
     (let rows = filter (\<lambda>l. l \<noteq> []) (lines_acc False [] content) in
      if CHR 0x22 \<in> set content then Inl OutsideModel
      else (case those (map (\<lambda>l. parse_row rt (split_on CHR '','' l)) rows) of
              None \<Rightarrow> Inl OutsideModel
            | Some df \<Rightarrow> Inr df))"

definition read_csv :: "runtime \<Rightarrow> world \<Rightarrow> string \<Rightarrow> py_error + frame" where
  "read_csv rt w path =
     (case files w path of
        None \<Rightarrow> Inl (FileNotFoundError path)
      | Some content \<Rightarrow> parse_csv rt content)"

subsection \<open>The Renderer: \<open>plot_usage\<close>\<close>

definition digit_val :: "char \<Rightarrow> nat option" where
  "digit_val c =
     (let n = (of_char c :: nat) in if 48 \<le> n \<and> n \<le> 57 then Some (n - 48) else None)"

definition num2 :: "char \<Rightarrow> char \<Rightarrow> nat option" where
  "num2 a b =
     (case digit_val a of
        None \<Rightarrow> None
      | Some x \<Rightarrow> (case digit_val b of None \<Rightarrow> None | Some y \<Rightarrow> Some (10 * x + y)))"

definition num4 :: "char \<Rightarrow> char \<Rightarrow> char \<Rightarrow> char \<Rightarrow> nat option" where
  "num4 a b c d =
     (case num2 a b of
        None \<Rightarrow> None
      | Some x \<Rightarrow> (case num2 c d of None \<Rightarrow> None | Some y \<Rightarrow> Some (100 * x + y)))"

text \<open>
  \<open>pd.to_datetime(s, format='%Y-%m-%d %H:%M:%S')\<close> on one string. The model accepts
  the zero-padded form \<open>strftime\<close> writes, for an instant pandas can represent; any
  other string is outside the model.
\<close>

definition strptime :: "string \<Rightarrow> datetime option" where
  "strptime s =
     (case s of
        [y1, y2, y3, y4, s1, m1, m2, s2, d1, d2, s3, h1, h2, s4, n1, n2, s5, c1, c2] \<Rightarrow>
          (if s1 = CHR ''-'' \<and> s2 = CHR ''-'' \<and> s3 = CHR '' '' \<and> s4 = CHR '':'' \<and> s5 = CHR '':''
           then
             (case num4 y1 y2 y3 y4 of None \<Rightarrow> None | Some y \<Rightarrow>
              (case num2 m1 m2 of None \<Rightarrow> None | Some mo \<Rightarrow>
              (case num2 d1 d2 of None \<Rightarrow> None | Some d \<Rightarrow>
              (case num2 h1 h2 of None \<Rightarrow> None | Some h \<Rightarrow>
              (case num2 n1 n2 of None \<Rightarrow> None | Some mi \<Rightarrow>
              (case num2 c1 c2 of None \<Rightarrow> None | Some se \<Rightarrow>
                 (let t = \<lparr>year = y, month = mo, day = d, hour = h, minute = mi, second = se\<rparr>
                  in if valid_datetime t then Some t else None)))))))
           else None)
      | _ \<Rightarrow> None)"

text \<open>
  The index of the frame holds \<open>datetime64\<close> instants, which count from 1970-01-01
  00:00:00. The days of a calendar date are counted as Python's \<open>date.toordinal\<close>
  counts them: the days before the year, the days before the month, the day;
  1970-01-01 has ordinal 719163.
\<close>

definition days_before_year :: "nat \<Rightarrow> int" where
  "days_before_year y =
     (let y1 = y - 1 in int (y1 * 365) + int (y1 div 4) - int (y1 div 100) + int (y1 div 400))"

definition days_before_month :: "nat \<Rightarrow> nat \<Rightarrow> nat" where
  "days_before_month y m = sum_list (map (days_in_month y) [1..<m])"

definition days_from_civil :: "nat \<Rightarrow> nat \<Rightarrow> nat \<Rightarrow> int" where
  "days_from_civil y m d =
     days_before_year y + int (days_before_month y m) + int d - 719163"

definition epoch_second :: "datetime \<Rightarrow> int" where
  "epoch_second t =
     ((days_from_civil (year t) (month t) (day t) * 24 + int (hour t)) * 60 +
      int (minute t)) * 60 + int (second t)"

text \<open>The one-minute bin of an instant: the instant floored to whole minutes.\<close>

definition epoch_minute :: "datetime \<Rightarrow> int" where
  "epoch_minute t = epoch_second t div 60"

text \<open>\<open>mean()\<close> of one bin: NaN (\<open>None\<close>) for a bin without rows.\<close>

definition mean :: "runtime \<Rightarrow> rat list \<Rightarrow> rat option" where
  "mean rt xs = (if xs = [] then None else Some (float_mean rt xs))"

text \<open>
  \<open>df.resample('1T').mean()\<close> on a frame indexed by instants. The rows are put in the
  order of their instants (a stable sort). There is one bin for every minute from the
  earliest instant's minute to the latest's, labelled by the minute, each with the mean
  of the rows that fall into it. A frame without rows gives no bin.
\<close>

definition resample_mean :: "runtime \<Rightarrow> (datetime \<times> rat \<times> rat) list \<Rightarrow> chart" where
  "resample_mean rt rows =
     (let sorted = sort_key (\<lambda>r. epoch_second (fst r)) rows
      in case map (\<lambda>r. epoch_minute (fst r)) sorted of
           [] \<Rightarrow> []
         | k # ks \<Rightarrow>
             map (\<lambda>b. (b,
                    mean rt (map (\<lambda>r. fst (snd r))
                               (filter (\<lambda>r. epoch_minute (fst r) = b) sorted)),
                    mean rt (map (\<lambda>r. snd (snd r))
                               (filter (\<lambda>r. epoch_minute (fst r) = b) sorted))))
               [fold min ks k .. fold max ks k])"

text \<open>
  \<open>plot_usage\<close>: read the log, parse the timestamps, resample, plot the two series and
  save the figure as \<open>graph.png\<close>. Every failure happens before \<open>savefig\<close>.
\<close>

definition plot_usage :: "runtime \<Rightarrow> monitor \<Rightarrow> world \<Rightarrow> (py_error + string) \<times> world" where
  "plot_usage rt m w =
     (case read_csv rt w (log_path m) of
        Inl e \<Rightarrow> (Inl e, w)
      | Inr df \<Rightarrow>
          (case those (map (\<lambda>r. strptime (fst r)) df) of
             None \<Rightarrow> (Inl OutsideModel, w)
           | Some idx \<Rightarrow>
               (let df_resampled = resample_mean rt (zip idx (map snd df));
                    plot_path = ''graph.png''
                in (Inr plot_path,
                    w\<lparr>files := (files w)(plot_path \<mapsto> savefig rt df_resampled)\<rparr>))))"

subsection \<open>The system profile: \<open>get_system_info\<close>\<close>

text \<open>
  What the host answers. \<open>import GPUtil\<close> either fails with \<open>ImportError\<close>
  (\<open>NotInstalled\<close>) or the module is there and \<open>getGPUs()\<close> raises or returns the
  adapters' names.
\<close>

datatype gputil = NotInstalled | Installed "py_error + string list"

record sysenv =
  platform_system :: string
  platform_release :: string
  platform_version :: string
  platform_platform :: string
  mem_total :: int
  cpu_info :: "string \<rightharpoonup> string"
  gputil :: gputil
  disk_total :: int

text \<open>The value under \<open>'graphics'\<close> is a list of names or a string.\<close>

datatype graphics = GpuNames "string list" | GpuText string

record system_info =
  si_os :: string
  si_memory_size :: string
  si_cpu_model :: string
  si_graphics :: graphics
  si_storage :: string

definition get_system_info :: "runtime \<Rightarrow> sysenv \<Rightarrow> py_error + system_info" where
  "get_system_info rt env =
     (let os = platform_system env @ '' '' @ platform_version env @
               '' ('' @ platform_platform env @ '')'';
          memory_size = float_str rt (of_int (mem_total env) / 1024 ^ 3) @ ''GB''
      in case cpu_info env ''brand_raw'' of
           None \<Rightarrow> Inl (KeyError ''brand_raw'')
         | Some cpu_model \<Rightarrow>
             (case (case gputil env of
                      NotInstalled \<Rightarrow> Inr (GpuText ''GPUtil not installed'')
                    | Installed (Inl e) \<Rightarrow> Inl e
                    | Installed (Inr gpus) \<Rightarrow> Inr (GpuNames (map (\<lambda>name. name) gpus))) of
                Inl e \<Rightarrow> Inl e
              | Inr g \<Rightarrow>
                  Inr \<lparr>si_os = os, si_memory_size = memory_size, si_cpu_model = cpu_model,
                       si_graphics = g,
                       si_storage = float_str rt (of_int (disk_total env) / 1024 ^ 3) @ ''GB''\<rparr>))"

subsection \<open>The mail: \<open>send_email\<close>\<close>

definition endswith :: "string \<Rightarrow> string \<Rightarrow> bool" where
  "endswith s suffix =
     (length suffix \<le> length s \<and> drop (length s - length suffix) s = suffix)"

definition basename :: "string \<Rightarrow> string" where
  "basename p = rev (takeWhile (\<lambda>c. c \<noteq> CHR ''/'') (rev p))"

text \<open>
  \<open>df.to_csv(path, index=False)\<close>: a header row with the column names, then one row
  per row of the frame, each ended by \<open>os.linesep\<close>.
\<close>

definition to_csv :: "runtime \<Rightarrow> frame \<Rightarrow> string" where
  "to_csv rt df =
     join '','' (map csv_field [''Timestamp'', ''RAM'', ''CPU'']) @ linesep rt @
     concat (map (\<lambda>(ts, r, c).
                    join '','' (map csv_field [ts, float_str rt r, float_str rt c]) @ linesep rt)
               df)"

text \<open>
  The loop over the attachments. Each file is opened first (\<open>FileNotFoundError\<close> when
  absent). A \<open>.png\<close> goes into a \<open>MIMEImage\<close>, which raises \<open>TypeError\<close> on bytes it
  cannot recognise. A \<open>.csv\<close> is read into a frame, the frame is written back over the
  same file by \<open>to_csv\<close>, and the bytes then read from the open handle, which are the
  rewritten file, are attached.
\<close>

fun attach_files ::
  "runtime \<Rightarrow> string list \<Rightarrow> (string \<times> string) list \<Rightarrow> world \<Rightarrow>
     (py_error + (string \<times> string) list) \<times> world" where
  "attach_files rt [] parts w = (Inr parts, w)"
| "attach_files rt (attachment # rest) parts w =
     (case files w attachment of
        None \<Rightarrow> (Inl (FileNotFoundError attachment), w)
      | Some content \<Rightarrow>
          if endswith attachment ''.png'' then
            (if imghdr rt content
             then attach_files rt rest (parts @ [(basename attachment, content)]) w
             else (Inl TypeError, w))
          else if endswith attachment ''.csv'' then
            (case read_csv rt w attachment of
               Inl e \<Rightarrow> (Inl e, w)
             | Inr df \<Rightarrow>
                 (let w' = w\<lparr>files := (files w)(attachment \<mapsto> to_csv rt df)\<rparr>
                  in attach_files rt rest (parts @ [(basename attachment, to_csv rt df)]) w'))
          else attach_files rt rest parts w)"

text \<open>
  \<open>send_email\<close>. \<open>smtp\<close> is the outcome of the SMTP session (\<open>starttls\<close>, \<open>login\<close>,
  \<open>send_message\<close>) for the message: \<open>None\<close> when it is delivered, the exception
  otherwise.
\<close>

definition send_email ::
  "runtime \<Rightarrow> monitor \<Rightarrow> string \<Rightarrow> string \<Rightarrow> string list \<Rightarrow> (message \<Rightarrow> py_error option) \<Rightarrow>
     world \<Rightarrow> (py_error + unit) \<times> world" where
  "send_email rt m subject body attachments smtp w =
     (case attach_files rt attachments [] w of
        (Inl e, w1) \<Rightarrow> (Inl e, w1)
      | (Inr parts, w1) \<Rightarrow>
          (let msg = \<lparr>msg_from = email m, msg_to = join '', '' (recipient_emails m),
                      msg_subject = subject, msg_body = body, msg_parts = parts\<rparr>
           in case smtp msg of
                Some e \<Rightarrow> (Inl e, w1)
              | None \<Rightarrow> (Inr (), w1\<lparr>outbox := outbox w1 @ [msg]\<rparr>)))"

subsection \<open>The Reporter: \<open>send_email_report\<close>\<close>

definition os_remove :: "string \<Rightarrow> world \<Rightarrow> (py_error + unit) \<times> world" where
  "os_remove path w =
     (case files w path of
        None \<Rightarrow> (Inl (FileNotFoundError path), w)
      | Some _ \<Rightarrow> (Inr (), w\<lparr>files := (files w)(path := None)\<rparr>))"

fun remove_all :: "string list \<Rightarrow> world \<Rightarrow> (py_error + unit) \<times> world" where
  "remove_all [] w = (Inr (), w)"
| "remove_all (attachment # rest) w =
     (case os_remove attachment w of
        (Inl e, w1) \<Rightarrow> (Inl e, w1)
      | (Inr _, w1) \<Rightarrow> remove_all rest w1)"

definition graphics_str :: "runtime \<Rightarrow> graphics \<Rightarrow> string" where
  "graphics_str rt g = (case g of GpuNames names \<Rightarrow> list_str rt names | GpuText s \<Rightarrow> s)"

definition report_body :: "runtime \<Rightarrow> system_info \<Rightarrow> string" where
  "report_body rt info =
     ''Hi, '' @ [CHR 0x0A, CHR 0x0A] @
     ''Please find the daily CPU and RAM usage of below system report attached. '' @
     [CHR 0x0A, CHR 0x0A] @
     ''OS: '' @ si_os info @ [CHR 0x0A] @
     ''Memory Size: '' @ si_memory_size info @ [CHR 0x0A] @
     ''CPU Model: '' @ si_cpu_model info @ [CHR 0x0A] @
     ''Graphics: '' @ graphics_str rt (si_graphics info) @ [CHR 0x0A] @
     ''Storage Size: '' @ si_storage info @ [CHR 0x0A, CHR 0x0A] @
     ''Thank you.'' @ [CHR 0x0A] @ ''i-Tips Bot''"

text \<open>What the host, the mail server and the clock answer during one report.\<close>

record report_env =
  host :: sysenv
  smtp_session :: "message \<Rightarrow> py_error option"
  now_after :: datetime

definition send_email_report ::
  "runtime \<Rightarrow> monitor \<Rightarrow> report_env \<Rightarrow> world \<Rightarrow> (py_error + monitor) \<times> world" where
  "send_email_report rt m env w =
     (case get_system_info rt (host env) of
        Inl e \<Rightarrow> (Inl e, w)
      | Inr info \<Rightarrow>
          (let subject = ''Daily CPU and RAM Usage Report | i-Tips'';
               body = report_body rt info
           in case plot_usage rt m w of
                (Inl e, w1) \<Rightarrow> (Inl e, w1)
              | (Inr plot_path, w1) \<Rightarrow>
                  (let attachments = [plot_path, log_path m]
                   in case send_email rt m subject body attachments (smtp_session env) w1 of
                        (Inl e, w2) \<Rightarrow> (Inl e, w2)
                      | (Inr _, w2) \<Rightarrow>
                          (case remove_all attachments w2 of
                             (Inl e, w3) \<Rightarrow> (Inl e, w3)
                           | (Inr _, w3) \<Rightarrow>
                               (Inr (m\<lparr>today := strftime_date (now_after env)\<rparr>), w3)))))"

subsection \<open>The scheduler loop\<close>

text \<open>
  What the outside answers during one iteration: the readings of \<open>get_usage\<close>, the
  clock reading of the stop-time test after the sleep, and the answers a report would
  get.
\<close>

record tick =
  usage :: usage_reading
  check_now :: datetime
  report :: report_env

definition STOP_TIME :: string where
  "STOP_TIME = ''23:59:59''"

definition loop_body :: "runtime \<Rightarrow> monitor \<Rightarrow> world \<Rightarrow> tick \<Rightarrow> (py_error + monitor) \<times> world" where
  "loop_body rt m w t =
     (case get_usage (usage t) of
        (timestamp, ram_percent, cpu_percent) \<Rightarrow>
          (let w1 = write_to_csv rt m timestamp ram_percent cpu_percent w
           in if strftime_time (check_now t) = STOP_TIME
              then send_email_report rt m (report t) w1
              else (Inr m, w1)))"

text \<open>
  \<open>while True\<close> never ends by itself. The model runs the iterations for which it is
  given the outside's answers: \<open>Inr m\<close> says that the loop is still running, with
  monitor \<open>m\<close>, after the last of them; \<open>Inl e\<close> that an iteration raised \<open>e\<close>, which
  nothing catches, so that the process is over and the remaining answers are never
  asked for.
\<close>

fun main_loop :: "runtime \<Rightarrow> monitor \<Rightarrow> world \<Rightarrow> tick list \<Rightarrow> (py_error + monitor) \<times> world" where
  "main_loop rt m w [] = (Inr m, w)"
| "main_loop rt m w (t # ts) =
     (case loop_body rt m w t of
        (Inl e, w1) \<Rightarrow> (Inl e, w1)
      | (Inr m1, w1) \<Rightarrow> main_loop rt m1 w1 ts)"

text \<open>
  The script's entry. \<open>SENDER\<close> and \<open>PASSWORD\<close> are what \<open>os.getenv\<close> returns
  (\<open>None\<close> for an unset variable), \<open>RECEIVER\<close> is the list the operator fills in,
  \<open>all([...])\<close> is the truth of all three: a string and a list are true when not
  empty.
\<close>

datatype process = Exited | Looping monitor

definition truthy :: "string option \<Rightarrow> bool" where
  "truthy v = (case v of None \<Rightarrow> False | Some s \<Rightarrow> s \<noteq> [])"

definition main ::
  "runtime \<Rightarrow> string option \<Rightarrow> string option \<Rightarrow> string list \<Rightarrow> datetime \<Rightarrow> tick list \<Rightarrow> world \<Rightarrow>
     (py_error + process) \<times> world" where
  "main rt SENDER PASSWORD RECEIVER now0 ticks w =
     (if truthy SENDER \<and> truthy PASSWORD \<and> RECEIVER \<noteq> [] then
        (case (SENDER, PASSWORD) of
           (Some s, Some p) \<Rightarrow>
             (case main_loop rt (UsageMonitor s p RECEIVER now0) w ticks of
                (Inl e, w1) \<Rightarrow> (Inl e, w1)
              | (Inr m, w1) \<Rightarrow> (Inr (Looping m), w1))
         | _ \<Rightarrow> (Inr Exited, w))
      else (Inr Exited, w))"

subsection \<open>A runtime for percentages with one decimal\<close>

text \<open>
  \<open>psutil\<close> reports percentages rounded to one decimal. For a float that is a whole
  number of tenths and not negative, \<open>str\<close> prints the integer part, a point and one
  digit, and pandas reads the same string back. This instance prints those so; any
  other number it prints as a fraction, which no parser of floats reads, so that it
  stands for Python only on the tenths. Its mean is the exact one, which is what
  float64 gives wherever sum and quotient are float64 numbers themselves (40 and 60,
  10 and 20). Its figure is a listing of the chart behind the PNG signature. It
  serves to run the model on concrete logs.
\<close>

function show_nat :: "nat \<Rightarrow> string" where
  "show_nat n = (if n < 10 then [digit_char n] else show_nat (n div 10) @ [digit_char (n mod 10)])"
  by pat_completeness auto
termination
  by (relation "measure id") auto

declare show_nat.simps [simp del]

definition show_int :: "int \<Rightarrow> string" where
  "show_int k = (if k < 0 then ''-'' else []) @ show_nat (nat \<bar>k\<bar>)"

definition rat_text :: "rat \<Rightarrow> string" where
  "rat_text x = (case quotient_of x of (n, d) \<Rightarrow> show_int n @ ''/'' @ show_int d)"

definition str_tenths :: "rat \<Rightarrow> string" where
  "str_tenths x =
     (let t = \<lfloor>x * 10\<rfloor>
      in if 0 \<le> x \<and> of_int t = x * 10
         then show_nat (nat t div 10) @ ''.'' @ [digit_char (nat t mod 10)]
         else rat_text x)"

fun decimal :: "nat \<Rightarrow> string \<Rightarrow> nat option" where
  "decimal acc [] = Some acc"
| "decimal acc (c # cs) =
     (case digit_val c of None \<Rightarrow> None | Some v \<Rightarrow> decimal (10 * acc + v) cs)"

definition parse_tenths :: "string \<Rightarrow> rat option" where
  "parse_tenths s =
     (case rev s of
        f # dot # ip \<Rightarrow>
          (if dot = CHR ''.'' \<and> ip \<noteq> [] then
             (case digit_val f of
                None \<Rightarrow> None
              | Some fv \<Rightarrow>
                  (case decimal 0 (rev ip) of
                     None \<Rightarrow> None
                   | Some iv \<Rightarrow> Some (of_nat iv + of_nat fv / 10)))
           else None)
      | _ \<Rightarrow> None)"

definition chart_text :: "chart \<Rightarrow> string" where
  "chart_text c =
     concat (map (\<lambda>(k, ram, cpu).
                    show_int k @ '';'' @
                    (case ram of None \<Rightarrow> ''nan'' | Some x \<Rightarrow> rat_text x) @ '';'' @
                    (case cpu of None \<Rightarrow> ''nan'' | Some x \<Rightarrow> rat_text x) @ ''|'') c)"

definition tenths_runtime :: runtime where
  "tenths_runtime =
     \<lparr>float_str = str_tenths, float_parse = parse_tenths,
      float_mean = (\<lambda>xs. sum_list xs / of_nat (length xs)),
      list_str = (\<lambda>xs. ''['' @ join '', '' (map (\<lambda>x. [CHR 0x27] @ x @ [CHR 0x27]) xs) @ '']''),
      linesep = [CHR 0x0A],
      savefig = (\<lambda>c. [CHR 0x89] @ ''PNG'' @ chart_text c),
      imghdr = (\<lambda>s. take 4 s = [CHR 0x89] @ ''PNG'')\<rparr>"

subsection \<open>The spec's scenario\<close>

text \<open>
  A monitor built on 2024-01-01, a world with no file and no mail, and the two samples
  of the scenario: (09:00:00, RAM 40, CPU 10) and (09:00:30, RAM 60, CPU 20).
\<close>

definition scenario_monitor :: monitor where
  "scenario_monitor =
     UsageMonitor ''sender@example.org'' ''secret'' [''ops@example.org'']
       \<lparr>year = 2024, month = 1, day = 1, hour = 8, minute = 0, second = 0\<rparr>"

definition empty_world :: world where
  "empty_world = \<lparr>files = Map.empty, outbox = []\<rparr>"

definition reading_a :: usage_reading where
  "reading_a = \<lparr>psutil_cpu = 10, psutil_ram = 40,
     usage_now = \<lparr>year = 2024, month = 1, day = 1, hour = 9, minute = 0, second = 0\<rparr>\<rparr>"

definition reading_b :: usage_reading where
  "reading_b = \<lparr>psutil_cpu = 20, psutil_ram = 60,
     usage_now = \<lparr>year = 2024, month = 1, day = 1, hour = 9, minute = 0, second = 30\<rparr>\<rparr>"

text \<open>
  A host without GPUtil, a mail server that delivers and one that refuses, and the
  readings of iterations around midnight of 2024-01-01: \<open>tick_a\<close> samples at 23:59:57
  and tests the clock at 23:59:58; \<open>tick_b\<close> samples at 23:59:58 and, the iteration
  having taken two seconds, tests the clock at 00:00:00; \<open>tick_c\<close> samples at 00:00:00
  of 2024-01-02; \<open>tick_stop\<close> samples at 23:59:58 and tests the clock at 23:59:59, with a
  server that refuses the mail, \<open>tick_sent\<close> with one that delivers it.
\<close>

definition scenario_host :: sysenv where
  "scenario_host =
     \<lparr>platform_system = ''Linux'', platform_release = ''6.1.0'', platform_version = ''#1 SMP'',
      platform_platform = ''Linux-6.1.0-x86_64'', mem_total = 8589934592,
      cpu_info = [''brand_raw'' \<mapsto> ''Example CPU''], gputil = NotInstalled,
      disk_total = 107374182400\<rparr>"

definition delivering :: report_env where
  "delivering =
     \<lparr>host = scenario_host, smtp_session = (\<lambda>msg. None),
      now_after = \<lparr>year = 2024, month = 1, day = 2, hour = 0, minute = 0, second = 1\<rparr>\<rparr>"

definition refusing :: report_env where
  "refusing =
     \<lparr>host = scenario_host, smtp_session = (\<lambda>msg. Some (SMTPError ''authentication failed'')),
      now_after = \<lparr>year = 2024, month = 1, day = 2, hour = 0, minute = 0, second = 1\<rparr>\<rparr>"

definition tick_a :: tick where
  "tick_a =
     \<lparr>usage = \<lparr>psutil_cpu = 10, psutil_ram = 40,
        usage_now = \<lparr>year = 2024, month = 1, day = 1, hour = 23, minute = 59, second = 57\<rparr>\<rparr>,
      check_now = \<lparr>year = 2024, month = 1, day = 1, hour = 23, minute = 59, second = 58\<rparr>,
      report = delivering\<rparr>"

definition tick_b :: tick where
  "tick_b =
     \<lparr>usage = \<lparr>psutil_cpu = 20, psutil_ram = 60,
        usage_now = \<lparr>year = 2024, month = 1, day = 1, hour = 23, minute = 59, second = 58\<rparr>\<rparr>,
      check_now = \<lparr>year = 2024, month = 1, day = 2, hour = 0, minute = 0, second = 0\<rparr>,
      report = delivering\<rparr>"

definition tick_c :: tick where
  "tick_c =
     \<lparr>usage = \<lparr>psutil_cpu = 5, psutil_ram = 50,
        usage_now = \<lparr>year = 2024, month = 1, day = 2, hour = 0, minute = 0, second = 0\<rparr>\<rparr>,
      check_now = \<lparr>year = 2024, month = 1, day = 2, hour = 0, minute = 0, second = 1\<rparr>,
      report = delivering\<rparr>"

definition tick_stop :: tick where
  "tick_stop =
     \<lparr>usage = \<lparr>psutil_cpu = 20, psutil_ram = 60,
        usage_now = \<lparr>year = 2024, month = 1, day = 1, hour = 23, minute = 59, second = 58\<rparr>\<rparr>,
      check_now = \<lparr>year = 2024, month = 1, day = 1, hour = 23, minute = 59, second = 59\<rparr>,
      report = refusing\<rparr>"

definition tick_sent :: tick where
  "tick_sent = tick_stop\<lparr>report := delivering\<rparr>"

text \<open>A world whose only file is the log of 2024-01-01, with nothing in it.\<close>

definition empty_log_world :: world where
  "empty_log_world = \<lparr>files = [''usage_2024-01-01.csv'' \<mapsto> []], outbox = []\<rparr>"

text \<open>The line of one sample in the log, without its terminator.\<close>

definition row_line :: "runtime \<Rightarrow> usage_reading \<Rightarrow> string" where
  "row_line rt u = strftime_datetime (usage_now u) @ CHR '','' # float_str rt (psutil_ram u) @
     CHR '','' # float_str rt (psutil_cpu u)"

section \<open>Properties\<close>

subsection \<open>Digits and timestamps\<close>

lemma digit_char_simps:
  "digit_char 0 = CHR ''0''" "digit_char 1 = CHR ''1''" "digit_char 2 = CHR ''2''"
  "digit_char 3 = CHR ''3''" "digit_char 4 = CHR ''4''" "digit_char 5 = CHR ''5''"
  "digit_char 6 = CHR ''6''" "digit_char 7 = CHR ''7''" "digit_char 8 = CHR ''8''"
  "digit_char 9 = CHR ''9''" "digit_char (Suc 0) = CHR ''1''"
  by code_simp+

lemma digit_cases:
  assumes "d < (10::nat)"
  shows "d = 0 \<or> d = 1 \<or> d = 2 \<or> d = 3 \<or> d = 4 \<or> d = 5 \<or> d = 6 \<or> d = 7 \<or> d = 8 \<or> d = 9"
  using assms by arith

lemma digit_val_simps:
  "digit_val CHR ''0'' = Some 0" "digit_val CHR ''1'' = Some 1" "digit_val CHR ''2'' = Some 2"
  "digit_val CHR ''3'' = Some 3" "digit_val CHR ''4'' = Some 4" "digit_val CHR ''5'' = Some 5"
  "digit_val CHR ''6'' = Some 6" "digit_val CHR ''7'' = Some 7" "digit_val CHR ''8'' = Some 8"
  "digit_val CHR ''9'' = Some 9"
  by (simp_all add: digit_val_def)

lemma digit_val_digit_char: "d < 10 \<Longrightarrow> digit_val (digit_char d) = Some d"
  using digit_cases [of d] by (auto simp: digit_char_simps digit_val_simps)

lemma digit_char_plain:
  "d < 10 \<Longrightarrow> \<not> csv_special (digit_char d) \<and> digit_char d \<noteq> CHR '':''"
  using digit_cases [of d] by (auto simp: digit_char_simps csv_special_def)

lemma num2_digits: "n < 100 \<Longrightarrow> num2 (digit_char (n div 10 mod 10)) (digit_char (n mod 10)) = Some n"
  by (simp add: num2_def digit_val_digit_char)

lemma num4_digits:
  assumes "n < 10000"
  shows "num4 (digit_char (n div 100 div 10 mod 10)) (digit_char (n div 100 mod 10))
           (digit_char (n mod 100 div 10 mod 10)) (digit_char (n mod 100 mod 10)) = Some n"
proof -
  have "n div 100 < 100" "n mod 100 < 100"
    using assms by simp_all
  then show ?thesis
    by (simp only: num4_def num2_digits option.case) simp
qed

lemma strptime_strftime:
  assumes "valid_datetime t"
  shows "strptime (strftime_datetime t) = Some t"
proof -
  have b: "year t < 10000" "month t < 100" "day t < 100" "hour t < 100" "minute t < 100"
    "second t < 100"
    using assms by (auto simp: valid_datetime_def days_in_month_def split: if_splits)
  have "strptime (strftime_datetime t) =
    (let t' = \<lparr>year = year t, month = month t, day = day t, hour = hour t,
                 minute = minute t, second = second t\<rparr>
     in if valid_datetime t' then Some t' else None)"
    by (simp only: strptime_def strftime_datetime_def strftime_date_def strftime_time_def
        pad2_def pad4_def append.simps list.case num2_digits num4_digits b option.case
        simp_thms if_True)
  moreover have "\<lparr>year = year t, month = month t, day = day t, hour = hour t,
                 minute = minute t, second = second t\<rparr> = t"
    by simp
  ultimately show ?thesis
    using assms by (simp add: Let_def)
qed

lemma pad2_plain: "\<not> list_ex csv_special (pad2 n)"
  by (simp add: pad2_def digit_char_plain)

lemma sep_plain:
  "\<not> csv_special CHR ''-''" "\<not> csv_special CHR '' ''" "\<not> csv_special CHR '':''"
  by (simp_all add: csv_special_def)

lemma strftime_datetime_plain:
  "\<not> list_ex csv_special (strftime_datetime t)"
  by (simp add: strftime_datetime_def strftime_date_def strftime_time_def pad4_def
      pad2_plain sep_plain)

lemma strftime_datetime_colon: "CHR '':'' \<in> set (strftime_datetime t)"
  by (simp add: strftime_datetime_def strftime_date_def strftime_time_def pad2_def pad4_def)

lemma lines_acc_line:
  assumes "CHR 0x0A \<notin> set l" "CHR 0x0D \<notin> set l"
  shows "lines_acc False cur (l @ CHR 0x0D # CHR 0x0A # rest) =
           (rev cur @ l) # lines_acc False [] rest"
  using assms by (induction l arbitrary: cur) auto

lemma split_on_nonempty: "split_on d s \<noteq> []"
  by (induction s) (auto split: list.splits)

lemma split_on_last: "d \<notin> set a \<Longrightarrow> split_on d a = [a]"
  by (induction a) auto

lemma split_on_sep: "d \<notin> set a \<Longrightarrow> split_on d (a @ d # b) = a # split_on d b"
  by (induction a) (auto split: list.splits)

lemma csv_field_plain: "\<not> list_ex csv_special s \<Longrightarrow> csv_field s = s"
  by (simp add: csv_field_def)

lemma plain_chars:
  assumes "\<not> list_ex csv_special s"
  shows "CHR '','' \<notin> set s" "CHR 0x22 \<notin> set s" "CHR 0x0D \<notin> set s" "CHR 0x0A \<notin> set s"
  using assms by (auto simp: list_ex_iff csv_special_def)

subsection \<open>The CSV layer\<close>

lemma writerow_plain:
  assumes "\<not> list_ex csv_special a" "\<not> list_ex csv_special b" "\<not> list_ex csv_special c"
  shows "writerow [a, b, c] = (a @ CHR '','' # b @ CHR '','' # c) @ [CHR 0x0D, CHR 0x0A]"
  using assms by (simp add: writerow_def csv_field_plain)

lemma split_row:
  assumes "\<not> list_ex csv_special a" "\<not> list_ex csv_special b" "\<not> list_ex csv_special c"
  shows "split_on CHR '','' (a @ CHR '','' # b @ CHR '','' # c) = [a, b, c]"
  using assms by (simp add: split_on_sep split_on_last plain_chars)

lemma files_append_file:
  "files (append_file p s w) q =
     (if q = p then Some ((case files w p of None \<Rightarrow> [] | Some old \<Rightarrow> old) @ s) else files w q)"
  by (simp add: append_file_def split: option.splits)

lemma outbox_append_file: "outbox (append_file p s w) = outbox w"
  by (simp add: append_file_def)

lemma files_record_all:
  "files (record_all rt m us w) q =
     (if q = log_path m \<and> us \<noteq> []
      then Some ((case files w q of None \<Rightarrow> [] | Some old \<Rightarrow> old) @
                 concat (map (\<lambda>u. writerow [strftime_datetime (usage_now u),
                                    float_str rt (psutil_ram u), float_str rt (psutil_cpu u)]) us))
      else files w q)"
proof (induction us arbitrary: w)
  case Nil
  show ?case by simp
next
  case (Cons u us)
  show ?case
    by (cases "us = []")
       (simp_all add: Cons.IH get_usage_def write_to_csv_def files_append_file split: option.splits)
qed

lemma outbox_record_all: "outbox (record_all rt m us w) = outbox w"
  by (induction us arbitrary: w)
     (simp_all add: get_usage_def write_to_csv_def outbox_append_file)

lemma lines_acc_rows:
  assumes "\<forall>l \<in> set ls. CHR 0x0A \<notin> set l \<and> CHR 0x0D \<notin> set l"
  shows "lines_acc False [] (concat (map (\<lambda>l. l @ [CHR 0x0D, CHR 0x0A]) ls)) = ls"
  using assms
proof (induction ls)
  case Nil
  show ?case by simp
next
  case (Cons l ls)
  have "lines_acc False [] (l @ CHR 0x0D # CHR 0x0A # concat (map (\<lambda>l. l @ [CHR 0x0D, CHR 0x0A]) ls))
          = (rev [] @ l) # lines_acc False [] (concat (map (\<lambda>l. l @ [CHR 0x0D, CHR 0x0A]) ls))"
    using Cons.prems by (intro lines_acc_line) auto
  then show ?case
    using Cons by simp
qed

lemma parse_row_line:
  assumes "float_ok rt (psutil_ram u)" "float_ok rt (psutil_cpu u)"
  shows "parse_row rt (split_on CHR '','' (row_line rt u)) = Some (get_usage u)"
  using assms
  by (simp add: row_line_def split_row strftime_datetime_plain float_ok_def parse_row_def
      strftime_datetime_colon get_usage_def)

lemma row_line_chars:
  assumes "float_ok rt (psutil_ram u)" "float_ok rt (psutil_cpu u)"
  shows "CHR 0x0A \<notin> set (row_line rt u)" "CHR 0x0D \<notin> set (row_line rt u)"
    "CHR 0x22 \<notin> set (row_line rt u)" "row_line rt u \<noteq> []"
  using assms plain_chars [OF strftime_datetime_plain [of "usage_now u"]]
    strftime_datetime_colon [of "usage_now u"]
  by (auto simp: row_line_def float_ok_def dest: plain_chars)

lemma those_map_Some:
  assumes "\<forall>x \<in> set xs. f x = Some (g x)"
  shows "those (map f xs) = Some (map g xs)"
  using assms by (induction xs) auto

lemma parse_csv_rows:
  assumes "us \<noteq> []"
    and "\<forall>u \<in> set us. float_ok rt (psutil_ram u) \<and> float_ok rt (psutil_cpu u)"
  shows "parse_csv rt (concat (map (\<lambda>u. row_line rt u @ [CHR 0x0D, CHR 0x0A]) us)) =
           Inr (map get_usage us)"
proof -
  let ?ls = "map (row_line rt) us"
  let ?content = "concat (map (\<lambda>l. l @ [CHR 0x0D, CHR 0x0A]) ?ls)"
  have c: "concat (map (\<lambda>u. row_line rt u @ [CHR 0x0D, CHR 0x0A]) us) = ?content"
    by (simp add: comp_def)
  have "\<forall>l \<in> set ?ls. CHR 0x0A \<notin> set l \<and> CHR 0x0D \<notin> set l"
    using assms(2) by (auto simp: row_line_chars)
  then have l: "lines_acc False [] ?content = ?ls"
    by (rule lines_acc_rows)
  have f: "filter (\<lambda>l. l \<noteq> []) ?ls = ?ls"
    using assms(2) by (auto simp: filter_id_conv row_line_chars)
  have q: "CHR 0x22 \<notin> set ?content"
    using assms(2) by (auto simp: row_line_chars)
  have t: "those (map (\<lambda>l. parse_row rt (split_on CHR '','' l)) ?ls) = Some (map get_usage us)"
    using assms(2) by (simp add: comp_def those_map_Some parse_row_line)
  show ?thesis
    unfolding c parse_csv_def l f Let_def
    using q t by simp
qed

lemma read_csv_recorded:
  assumes "files w (log_path m) = None"
    and "us \<noteq> []"
    and "\<forall>u \<in> set us. float_ok rt (psutil_ram u) \<and> float_ok rt (psutil_cpu u)"
  shows "read_csv rt (record_all rt m us w) (log_path m) = Inr (map get_usage us)"
proof -
  have "\<forall>u \<in> set us. writerow [strftime_datetime (usage_now u), float_str rt (psutil_ram u),
            float_str rt (psutil_cpu u)] = row_line rt u @ [CHR 0x0D, CHR 0x0A]"
    using assms(3) by (simp add: writerow_plain strftime_datetime_plain float_ok_def row_line_def)
  then have "files (record_all rt m us w) (log_path m) =
      Some (concat (map (\<lambda>u. row_line rt u @ [CHR 0x0D, CHR 0x0A]) us))"
    using assms(1,2) by (simp add: files_record_all cong: map_cong)
  then show ?thesis
    using assms(2,3) by (simp add: read_csv_def parse_csv_rows)
qed

subsection \<open>Rendering the chart\<close>

lemma those_strptime:
  assumes "\<forall>u \<in> set us. valid_datetime (usage_now u)"
  shows "those (map (\<lambda>r. strptime (fst r)) (map get_usage us)) = Some (map usage_now us)"
  using assms by (simp add: comp_def those_map_Some get_usage_def strptime_strftime)

lemma zip_get_usage:
  "zip (map usage_now us) (map snd (map get_usage us)) =
     map (\<lambda>u. (usage_now u, psutil_ram u, psutil_cpu u)) us"
  by (induction us) (simp_all add: get_usage_def)

lemma plot_usage_recorded:
  assumes "files w (log_path m) = None"
    and "us \<noteq> []"
    and "\<forall>u \<in> set us. float_ok rt (psutil_ram u) \<and> float_ok rt (psutil_cpu u)"
    and "\<forall>u \<in> set us. valid_datetime (usage_now u)"
  shows "plot_usage rt m (record_all rt m us w) =
     (Inr ''graph.png'',
      (record_all rt m us w)\<lparr>files := (files (record_all rt m us w))(''graph.png'' \<mapsto>
         savefig rt (resample_mean rt (map (\<lambda>u. (usage_now u, psutil_ram u, psutil_cpu u)) us)))\<rparr>)"
  using assms
  by (simp add: plot_usage_def read_csv_recorded those_strptime zip_get_usage Let_def
      del: map_map)

subsection \<open>The system profile without GPUtil\<close>

text \<open>
  C8. When \<open>import GPUtil\<close> fails, \<open>get_system_info\<close> does not raise for it: it
  returns the profile with the marker \<open>"GPUtil not installed"\<close> under \<open>'graphics'\<close>
  (the CPU description having its \<open>'brand_raw'\<close> entry).
\<close>

theorem get_system_info_without_gputil:
  assumes "gputil env = NotInstalled"
    and "cpu_info env ''brand_raw'' = Some cpu_model"
  shows "\<exists>info. get_system_info rt env = Inr info \<and>
           si_graphics info = GpuText ''GPUtil not installed''"
  using assms by (simp add: get_system_info_def Let_def)

theorem get_system_info_without_gputil_witness:
  "\<exists>info. get_system_info tenths_runtime scenario_host = Inr info \<and>
     si_graphics info = GpuText ''GPUtil not installed''"
proof -
  have h1: "gputil scenario_host = NotInstalled"
    by (simp add: scenario_host_def)
  have h2: "cpu_info scenario_host ''brand_raw'' = Some ''Example CPU''"
    by (simp add: scenario_host_def)
  show ?thesis
    using get_system_info_without_gputil [OF h1 h2] .
qed

subsection \<open>Starting the loop\<close>

text \<open>
  C9. The script enters the loop only when sender, credential and recipient list are
  all there: when a variable is unset or empty, or the list is empty, it ends at once
  and the world is untouched, whatever the outside would have answered.
\<close>

theorem main_refuses_without_configuration:
  assumes "SENDER = None \<or> SENDER = Some [] \<or> PASSWORD = None \<or> PASSWORD = Some [] \<or>
           RECEIVER = []"
  shows "main rt SENDER PASSWORD RECEIVER now0 ticks w = (Inr Exited, w)"
  using assms by (auto simp: main_def truthy_def)

theorem main_refuses_without_configuration_witness:
  "main tenths_runtime (Some ''sender@example.org'') (Some ''secret'') []
     \<lparr>year = 2024, month = 1, day = 1, hour = 8, minute = 0, second = 0\<rparr>
     [tick_a, tick_sent] empty_world = (Inr Exited, empty_world)"
  by (rule main_refuses_without_configuration) simp

subsection \<open>A report that raises\<close>

lemma main_loop_append:
  "main_loop rt m w (xs @ ys) =
     (case main_loop rt m w xs of
        (Inl e, w1) \<Rightarrow> (Inl e, w1)
      | (Inr m1, w1) \<Rightarrow> main_loop rt m1 w1 ys)"
  by (induction xs arbitrary: m w) (auto split: prod.splits sum.splits)

lemma loop_body_due:
  assumes "strftime_time (check_now t) = STOP_TIME"
  shows "loop_body rt m w t = send_email_report rt m (report t) (record_all rt m [usage t] w)"
  using assms by (simp add: loop_body_def Let_def split: prod.splits)

text \<open>
  C10. Nothing catches what \<open>send_email_report\<close> raises: when the report of an
  iteration raises \<open>e\<close>, the loop is over with \<open>e\<close> in the world the raise left, and
  whatever iterations would have followed add nothing to it.
\<close>

theorem failed_report_ends_process:
  assumes "main_loop rt m w before = (Inr m1, w1)"
    and "strftime_time (check_now t) = STOP_TIME"
    and "send_email_report rt m1 (report t) (record_all rt m1 [usage t] w1) = (Inl e, w2)"
  shows "main_loop rt m w (before @ t # later) = (Inl e, w2)"
  using assms by (simp add: main_loop_append loop_body_due)

subsection \<open>One report, step by step\<close>

lemma log_path_not_graph: "log_path m \<noteq> ''graph.png''" "''graph.png'' \<noteq> log_path m"
  by (simp_all add: log_path_def)

lemma endswith_log_path:
  "endswith (log_path m) ''.csv''" "\<not> endswith (log_path m) ''.png''"
  by (simp_all add: endswith_def log_path_def)

lemma endswith_graph: "endswith ''graph.png'' ''.png''"
  by (simp add: endswith_def)

lemma basename_graph: "basename ''graph.png'' = ''graph.png''"
  by (simp add: basename_def)

lemma read_csv_Inr_file:
  assumes "read_csv rt w p = Inr df"
  shows "\<exists>content. files w p = Some content"
  using assms by (simp add: read_csv_def split: option.splits)

lemma read_csv_files_cong:
  assumes "files w' p = files w p"
  shows "read_csv rt w' p = read_csv rt w p"
  using assms by (simp add: read_csv_def)

lemma plot_usage_Inr:
  assumes "read_csv rt w (log_path m) = Inr df"
    and "those (map (\<lambda>r. strptime (fst r)) df) = Some idx"
  shows "plot_usage rt m w =
     (Inr ''graph.png'',
      w\<lparr>files := (files w)(''graph.png'' \<mapsto> savefig rt (resample_mean rt (zip idx (map snd df))))\<rparr>)"
  using assms by (simp add: plot_usage_def Let_def)

lemma attach_report_files:
  assumes "read_csv rt w (log_path m) = Inr df"
    and "imghdr rt png"
  shows "attach_files rt [''graph.png'', log_path m] []
           (w\<lparr>files := (files w)(''graph.png'' \<mapsto> png)\<rparr>) =
     (Inr [(''graph.png'', png), (basename (log_path m), to_csv rt df)],
      w\<lparr>files := (files w)(''graph.png'' \<mapsto> png, log_path m \<mapsto> to_csv rt df)\<rparr>)"
proof -
  obtain content where c: "files w (log_path m) = Some content"
    using read_csv_Inr_file [OF assms(1)] by blast
  have r: "read_csv rt (w\<lparr>files := (files w)(''graph.png'' \<mapsto> png)\<rparr>) (log_path m) = Inr df"
    using assms(1) by (simp add: read_csv_def log_path_not_graph)
  show ?thesis
    using assms(2) c r
    by (simp add: endswith_graph endswith_log_path basename_graph log_path_not_graph Let_def)
qed

lemma remove_report_files:
  assumes "files w ''graph.png'' \<noteq> None" "files w (log_path m) \<noteq> None"
  shows "remove_all [''graph.png'', log_path m] w =
     (Inr (), w\<lparr>files := (files w)(''graph.png'' := None, log_path m := None)\<rparr>)"
  using assms by (auto simp: os_remove_def log_path_not_graph)

lemma send_email_report_run:
  fixes rt m env w info df idx
  defines "png \<equiv> savefig rt (resample_mean rt (zip idx (map snd df)))"
  defines "msg \<equiv> \<lparr>msg_from = email m, msg_to = join '', '' (recipient_emails m),
       msg_subject = ''Daily CPU and RAM Usage Report | i-Tips'',
       msg_body = report_body rt info,
       msg_parts = [(''graph.png'', png), (basename (log_path m), to_csv rt df)]\<rparr>"
  assumes "get_system_info rt (host env) = Inr info"
    and "read_csv rt w (log_path m) = Inr df"
    and "those (map (\<lambda>r. strptime (fst r)) df) = Some idx"
    and "imghdr rt png"
  shows "send_email_report rt m env w =
     (case smtp_session env msg of
        None \<Rightarrow>
          (Inr (m\<lparr>today := strftime_date (now_after env)\<rparr>),
           w\<lparr>files := (files w)(''graph.png'' := None, log_path m := None),
             outbox := outbox w @ [msg]\<rparr>)
      | Some e \<Rightarrow>
          (Inl e, w\<lparr>files := (files w)(''graph.png'' \<mapsto> png, log_path m \<mapsto> to_csv rt df)\<rparr>))"
proof -
  have p: "plot_usage rt m w = (Inr ''graph.png'', w\<lparr>files := (files w)(''graph.png'' \<mapsto> png)\<rparr>)"
    unfolding png_def using assms(4,5) by (rule plot_usage_Inr)
  have a: "attach_files rt [''graph.png'', log_path m] []
           (w\<lparr>files := (files w)(''graph.png'' \<mapsto> png)\<rparr>) =
     (Inr [(''graph.png'', png), (basename (log_path m), to_csv rt df)],
      w\<lparr>files := (files w)(''graph.png'' \<mapsto> png, log_path m \<mapsto> to_csv rt df)\<rparr>)"
    using assms(4,6) by (rule attach_report_files)
  have r: "remove_all [''graph.png'', log_path m]
       (w\<lparr>files := (files w)(''graph.png'' \<mapsto> png, log_path m \<mapsto> to_csv rt df),
          outbox := outbox w @ [msg]\<rparr>) =
     (Inr (), w\<lparr>files := (files w)(''graph.png'' := None, log_path m := None),
          outbox := outbox w @ [msg]\<rparr>)"
    by (subst remove_report_files) (auto simp: log_path_not_graph fun_eq_iff)
  show ?thesis
    unfolding send_email_report_def send_email_def Let_def
    by (simp only: assms(3) p a sum.case prod.case msg_def [symmetric])
       (simp add: r split: option.splits del: remove_all.simps)
qed

subsection \<open>Deleting the files\<close>

text \<open>
  C3. With the profile queried and the chart rendered, \<open>send_email_report\<close> composes one
  message and hands it to the SMTP session. When the session delivers it, the report
  returns and both \<open>graph.png\<close> and the log are gone; when the session raises \<open>e\<close>, the
  report raises \<open>e\<close>, nothing is mailed and both files are still there.
\<close>

theorem report_deletes_iff_delivered:
  fixes rt m env w info df idx
  defines "png \<equiv> savefig rt (resample_mean rt (zip idx (map snd df)))"
  defines "msg \<equiv> \<lparr>msg_from = email m, msg_to = join '', '' (recipient_emails m),
       msg_subject = ''Daily CPU and RAM Usage Report | i-Tips'',
       msg_body = report_body rt info,
       msg_parts = [(''graph.png'', png), (basename (log_path m), to_csv rt df)]\<rparr>"
  assumes "get_system_info rt (host env) = Inr info"
    and "read_csv rt w (log_path m) = Inr df"
    and "those (map (\<lambda>r. strptime (fst r)) df) = Some idx"
    and "imghdr rt png"
  shows "(smtp_session env msg = None \<longrightarrow>
            (\<exists>m' w'. send_email_report rt m env w = (Inr m', w') \<and>
               files w' ''graph.png'' = None \<and> files w' (log_path m) = None \<and>
               outbox w' = outbox w @ [msg])) \<and>
         (\<forall>e. smtp_session env msg = Some e \<longrightarrow>
            (\<exists>w'. send_email_report rt m env w = (Inl e, w') \<and>
               files w' ''graph.png'' \<noteq> None \<and> files w' (log_path m) \<noteq> None \<and>
               outbox w' = outbox w))"
  using send_email_report_run [OF assms(3) assms(4) assms(5) assms(6) [unfolded png_def]]
  by (simp add: msg_def png_def log_path_not_graph)

lemma scenario_log_path: "log_path scenario_monitor = ''usage_2024-01-01.csv''"
  by code_simp

lemma scenario_readings_ok:
  "\<forall>u \<in> set [reading_a, reading_b].
      float_ok tenths_runtime (psutil_ram u) \<and> float_ok tenths_runtime (psutil_cpu u)"
  "\<forall>u \<in> set [reading_a, reading_b]. valid_datetime (usage_now u)"
  by code_simp+

lemma scenario_host_info: "\<exists>info. get_system_info tenths_runtime scenario_host = Inr info"
  by (simp add: get_system_info_def scenario_host_def Let_def)

theorem report_deletes_iff_delivered_witness:
  "(\<exists>m' w'. send_email_report tenths_runtime scenario_monitor delivering
       (record_all tenths_runtime scenario_monitor [reading_a, reading_b] empty_world) =
         (Inr m', w') \<and>
       files w' ''graph.png'' = None \<and> files w' ''usage_2024-01-01.csv'' = None) \<and>
   (\<exists>w'. send_email_report tenths_runtime scenario_monitor refusing
       (record_all tenths_runtime scenario_monitor [reading_a, reading_b] empty_world) =
         (Inl (SMTPError ''authentication failed''), w') \<and>
       files w' ''graph.png'' \<noteq> None \<and> files w' ''usage_2024-01-01.csv'' \<noteq> None)"
proof -
  let ?w = "record_all tenths_runtime scenario_monitor [reading_a, reading_b] empty_world"
  obtain info where i: "get_system_info tenths_runtime scenario_host = Inr info"
    using scenario_host_info by blast
  have i1: "get_system_info tenths_runtime (host delivering) = Inr info"
    and i2: "get_system_info tenths_runtime (host refusing) = Inr info"
    using i by (simp_all add: delivering_def refusing_def)
  have l: "read_csv tenths_runtime ?w (log_path scenario_monitor) =
      Inr (map get_usage [reading_a, reading_b])"
    by (rule read_csv_recorded) (simp_all add: empty_world_def scenario_readings_ok)
  have x: "those (map (\<lambda>r. strptime (fst r)) (map get_usage [reading_a, reading_b])) =
      Some (map usage_now [reading_a, reading_b])"
    by (rule those_strptime) (rule scenario_readings_ok)
  have g: "imghdr tenths_runtime (savefig tenths_runtime c)" for c
    by (simp add: tenths_runtime_def)
  have d: "smtp_session delivering msg = None"
    and r: "smtp_session refusing msg = Some (SMTPError ''authentication failed'')" for msg
    by (simp_all add: delivering_def refusing_def)
  show ?thesis
    using report_deletes_iff_delivered [OF i1 l x g] report_deletes_iff_delivered [OF i2 l x g]
    unfolding scenario_log_path d r by blast
qed

text \<open>
  The loop samples at 23:59:58, finds 23:59:59 on the clock and the server refuses the
  mail: the run is over with the server's error, the same world whether or not the
  outside had answers for a further iteration.
\<close>

theorem failed_report_ends_process_witness:
  "\<exists>w'. main_loop tenths_runtime scenario_monitor empty_world ([] @ tick_stop # [tick_c]) =
           (Inl (SMTPError ''authentication failed''), w') \<and>
         main_loop tenths_runtime scenario_monitor empty_world ([] @ tick_stop # []) =
           (Inl (SMTPError ''authentication failed''), w')"
proof -
  let ?w = "record_all tenths_runtime scenario_monitor [usage tick_stop] empty_world"
  have h1: "main_loop tenths_runtime scenario_monitor empty_world [] =
      (Inr scenario_monitor, empty_world)"
    by simp
  have h2: "strftime_time (check_now tick_stop) = STOP_TIME"
    by code_simp
  obtain info where i: "get_system_info tenths_runtime scenario_host = Inr info"
    using scenario_host_info by blast
  have i2: "get_system_info tenths_runtime (host (report tick_stop)) = Inr info"
    using i by (simp add: tick_stop_def refusing_def)
  have ok: "\<forall>u \<in> set [usage tick_stop].
      float_ok tenths_runtime (psutil_ram u) \<and> float_ok tenths_runtime (psutil_cpu u)"
    "\<forall>u \<in> set [usage tick_stop]. valid_datetime (usage_now u)"
    by code_simp+
  have l: "read_csv tenths_runtime ?w (log_path scenario_monitor) =
      Inr (map get_usage [usage tick_stop])"
    by (rule read_csv_recorded) (simp_all add: empty_world_def ok)
  have x: "those (map (\<lambda>r. strptime (fst r)) (map get_usage [usage tick_stop])) =
      Some (map usage_now [usage tick_stop])"
    by (rule those_strptime) (rule ok)
  have g: "imghdr tenths_runtime (savefig tenths_runtime c)" for c
    by (simp add: tenths_runtime_def)
  have r: "smtp_session (report tick_stop) msg = Some (SMTPError ''authentication failed'')"
    for msg
    by (simp add: tick_stop_def refusing_def)
  obtain w2 where h3: "send_email_report tenths_runtime scenario_monitor (report tick_stop) ?w =
      (Inl (SMTPError ''authentication failed''), w2)"
    using send_email_report_run [OF i2 l x g] unfolding r by simp
  show ?thesis
    using failed_report_ends_process [OF h1 h2 h3, of "[tick_c]"]
      failed_report_ends_process [OF h1 h2 h3, of "[]"]
    by blast
qed

subsection \<open>Who changes the log\<close>

lemma files_write_to_csv:
  "files (write_to_csv rt m ts ram cpu w) =
     (files w)(log_path m \<mapsto>
        (case files w (log_path m) of None \<Rightarrow> [] | Some old \<Rightarrow> old) @
        writerow [ts, float_str rt ram, float_str rt cpu])"
  by (auto simp: write_to_csv_def append_file_def fun_eq_iff split: option.splits)

lemma attach_log:
  assumes "read_csv rt w (log_path m) = Inr df"
  shows "attach_files rt [log_path m] parts w =
     (Inr (parts @ [(basename (log_path m), to_csv rt df)]),
      w\<lparr>files := (files w)(log_path m \<mapsto> to_csv rt df)\<rparr>)"
proof -
  obtain content where c: "files w (log_path m) = Some content"
    using read_csv_Inr_file [OF assms] by blast
  show ?thesis
    using assms c by (simp add: endswith_log_path Let_def)
qed

lemma csv_header: "join '','' (map csv_field [''Timestamp'', ''RAM'', ''CPU'']) = ''Timestamp,RAM,CPU''"
  by (simp add: csv_field_def csv_special_def)

lemma to_csv_header:
  "to_csv rt df = ''Timestamp,RAM,CPU'' @ linesep rt @
     concat (map (\<lambda>(ts, r, c).
                    join '','' (map csv_field [ts, float_str rt r, float_str rt c]) @ linesep rt)
               df)"
  unfolding to_csv_def csv_header by simp

lemma scenario_rows:
  "writerow [strftime_datetime (usage_now reading_a), float_str tenths_runtime (psutil_ram reading_a),
     float_str tenths_runtime (psutil_cpu reading_a)] =
   ''2024-01-01 09:00:00,40.0,10.0'' @ [CHR 0x0D, CHR 0x0A]"
  "writerow [strftime_datetime (usage_now reading_b), float_str tenths_runtime (psutil_ram reading_b),
     float_str tenths_runtime (psutil_cpu reading_b)] =
   ''2024-01-01 09:00:30,60.0,20.0'' @ [CHR 0x0D, CHR 0x0A]"
  by code_simp+

lemma scenario_log:
  "files (record_all tenths_runtime scenario_monitor [reading_a, reading_b] empty_world)
     ''usage_2024-01-01.csv'' =
   Some (''2024-01-01 09:00:00,40.0,10.0'' @ [CHR 0x0D, CHR 0x0A] @
         ''2024-01-01 09:00:30,60.0,20.0'' @ [CHR 0x0D, CHR 0x0A])"
proof -
  have "files (record_all tenths_runtime scenario_monitor [reading_a, reading_b] empty_world)
     (log_path scenario_monitor) =
     Some (writerow [strftime_datetime (usage_now reading_a),
             float_str tenths_runtime (psutil_ram reading_a),
             float_str tenths_runtime (psutil_cpu reading_a)] @
           writerow [strftime_datetime (usage_now reading_b),
             float_str tenths_runtime (psutil_ram reading_b),
             float_str tenths_runtime (psutil_cpu reading_b)])"
    by (simp add: files_record_all empty_world_def del: record_all.simps)
  then show ?thesis
    unfolding scenario_rows scenario_log_path by simp
qed

lemma scenario_to_csv:
  "to_csv tenths_runtime (map get_usage [reading_a, reading_b]) =
     ''Timestamp,RAM,CPU'' @ [CHR 0x0A] @ ''2024-01-01 09:00:00,40.0,10.0'' @ [CHR 0x0A] @
     ''2024-01-01 09:00:30,60.0,20.0'' @ [CHR 0x0A]"
  by code_simp

lemma scenario_read_csv:
  "read_csv tenths_runtime
     (record_all tenths_runtime scenario_monitor [reading_a, reading_b] empty_world)
     (log_path scenario_monitor) = Inr (map get_usage [reading_a, reading_b])"
  by (rule read_csv_recorded) (simp_all add: empty_world_def scenario_readings_ok)

text \<open>
  The scenario's log holds two rows ended by CR LF. The report whose mail the server
  refuses leaves it, still on disk, as a header row and the two rows ended by LF.
\<close>

theorem log_rewritten_by_report_counterexample:
  "files (record_all tenths_runtime scenario_monitor [reading_a, reading_b] empty_world)
     ''usage_2024-01-01.csv'' =
     Some (''2024-01-01 09:00:00,40.0,10.0'' @ [CHR 0x0D, CHR 0x0A] @
           ''2024-01-01 09:00:30,60.0,20.0'' @ [CHR 0x0D, CHR 0x0A]) \<and>
   (\<exists>w'. send_email_report tenths_runtime scenario_monitor refusing
       (record_all tenths_runtime scenario_monitor [reading_a, reading_b] empty_world) =
         (Inl (SMTPError ''authentication failed''), w') \<and>
       files w' ''usage_2024-01-01.csv'' =
         Some (''Timestamp,RAM,CPU'' @ [CHR 0x0A] @ ''2024-01-01 09:00:00,40.0,10.0'' @
               [CHR 0x0A] @ ''2024-01-01 09:00:30,60.0,20.0'' @ [CHR 0x0A]))"
proof -
  obtain info where i: "get_system_info tenths_runtime scenario_host = Inr info"
    using scenario_host_info by blast
  have i2: "get_system_info tenths_runtime (host refusing) = Inr info"
    using i by (simp add: refusing_def)
  have x: "those (map (\<lambda>r. strptime (fst r)) (map get_usage [reading_a, reading_b])) =
      Some (map usage_now [reading_a, reading_b])"
    by (rule those_strptime) (rule scenario_readings_ok)
  have g: "imghdr tenths_runtime (savefig tenths_runtime c)" for c
    by (simp add: tenths_runtime_def)
  have r: "smtp_session refusing msg = Some (SMTPError ''authentication failed'')" for msg
    by (simp add: refusing_def)
  show ?thesis
    using send_email_report_run [OF i2 scenario_read_csv x g]
    unfolding r scenario_log_path scenario_to_csv scenario_log
    by simp
qed

subsection \<open>A missing log, an empty log\<close>

lemma parse_csv_empty: "parse_csv rt [] = Inr []"
  by (simp add: parse_csv_def)

lemma resample_mean_empty: "resample_mean rt [] = []"
  by (simp add: resample_mean_def)

lemma plot_usage_missing:
  assumes "files w (log_path m) = None"
  shows "plot_usage rt m w = (Inl (FileNotFoundError (log_path m)), w)"
  using assms by (simp add: plot_usage_def read_csv_def)

lemma plot_usage_empty:
  assumes "files w (log_path m) = Some []"
  shows "plot_usage rt m w =
     (Inr ''graph.png'', w\<lparr>files := (files w)(''graph.png'' \<mapsto> savefig rt [])\<rparr>)"
proof -
  have r: "read_csv rt w (log_path m) = Inr []"
    using assms by (simp add: read_csv_def parse_csv_empty)
  have x: "those (map (\<lambda>r. strptime (fst r)) ([] :: frame)) = Some []"
    by simp
  show ?thesis
    using plot_usage_Inr [OF r x] by (simp add: resample_mean_empty)
qed

lemma send_email_report_empty:
  assumes "files w (log_path m) = Some []"
    and "get_system_info rt (host env) = Inr info"
    and "imghdr rt (savefig rt [])"
    and "\<forall>msg. smtp_session env msg = None"
  shows "\<exists>m' w'. send_email_report rt m env w = (Inr m', w') \<and>
           length (outbox w') = length (outbox w) + 1 \<and>
           files w' ''graph.png'' = None \<and> files w' (log_path m) = None"
proof -
  have r: "read_csv rt w (log_path m) = Inr []"
    using assms(1) by (simp add: read_csv_def parse_csv_empty)
  have x: "those (map (\<lambda>r. strptime (fst r)) ([] :: frame)) = Some []"
    by simp
  have g: "imghdr rt (savefig rt (resample_mean rt (zip [] (map snd ([] :: frame)))))"
    using assms(3) by (simp add: resample_mean_empty)
  show ?thesis
    using send_email_report_run [OF assms(2) r x g] assms(4)
    by (simp add: log_path_not_graph)
qed

text \<open>
  The log of the day exists and holds nothing. \<open>plot_usage\<close> raises nothing: it saves
  the figure of the frame without rows as \<open>graph.png\<close> and returns the path; the report
  is mailed and both files are deleted.
\<close>

theorem empty_log_renders_counterexample:
  "plot_usage tenths_runtime scenario_monitor empty_log_world =
     (Inr ''graph.png'',
      empty_log_world\<lparr>files := (files empty_log_world)(''graph.png'' \<mapsto>
         savefig tenths_runtime [])\<rparr>) \<and>
   (\<exists>m' w'. send_email_report tenths_runtime scenario_monitor delivering empty_log_world =
        (Inr m', w') \<and>
      length (outbox w') = 1 \<and> files w' ''graph.png'' = None \<and>
      files w' ''usage_2024-01-01.csv'' = None)"
proof -
  have f: "files empty_log_world (log_path scenario_monitor) = Some []"
    by (simp add: scenario_log_path empty_log_world_def)
  obtain info where i: "get_system_info tenths_runtime scenario_host = Inr info"
    using scenario_host_info by blast
  have i1: "get_system_info tenths_runtime (host delivering) = Inr info"
    using i by (simp add: delivering_def)
  have g: "imghdr tenths_runtime (savefig tenths_runtime [])"
    by (simp add: tenths_runtime_def)
  have d: "\<forall>msg. smtp_session delivering msg = None"
    by (simp add: delivering_def)
  have o: "outbox empty_log_world = []"
    by (simp add: empty_log_world_def)
  show ?thesis
    using plot_usage_empty [OF f] send_email_report_empty [OF f i1 g d]
    unfolding scenario_log_path o by simp
qed

text \<open>
  C7, as the code has it. When the log of the monitor's day is missing, \<open>plot_usage\<close>
  raises \<open>FileNotFoundError\<close> and leaves the world as it was, so no chart file is
  written, and \<open>send_email_report\<close> raises before composing or sending anything. A log
  that exists and is empty is not an error: \<open>read_csv\<close> gives the frame without rows,
  \<open>plot_usage\<close> saves its figure as \<open>graph.png\<close> and returns the path, and with the
  profile queried and a server that delivers, the report is mailed and returns.
\<close>

theorem plot_usage_missing_or_empty:
  "(files w (log_path m) = None \<longrightarrow>
      plot_usage rt m w = (Inl (FileNotFoundError (log_path m)), w) \<and>
      (\<exists>e. send_email_report rt m env w = (Inl e, w))) \<and>
   (files w (log_path m) = Some [] \<longrightarrow>
      plot_usage rt m w =
        (Inr ''graph.png'', w\<lparr>files := (files w)(''graph.png'' \<mapsto> savefig rt [])\<rparr>) \<and>
      (get_system_info rt (host env) = Inr info \<longrightarrow> imghdr rt (savefig rt []) \<longrightarrow>
       (\<forall>msg. smtp_session env msg = None) \<longrightarrow>
         (\<exists>m' w'. send_email_report rt m env w = (Inr m', w') \<and>
            length (outbox w') = length (outbox w) + 1)))"
proof (intro conjI impI)
  assume a: "files w (log_path m) = None"
  show "plot_usage rt m w = (Inl (FileNotFoundError (log_path m)), w)"
    using a by (rule plot_usage_missing)
  then show "\<exists>e. send_email_report rt m env w = (Inl e, w)"
    by (simp add: send_email_report_def Let_def split: sum.splits)
next
  assume a: "files w (log_path m) = Some []"
  show "plot_usage rt m w =
        (Inr ''graph.png'', w\<lparr>files := (files w)(''graph.png'' \<mapsto> savefig rt [])\<rparr>)"
    using a by (rule plot_usage_empty)
next
  assume "files w (log_path m) = Some []" "get_system_info rt (host env) = Inr info"
    "imghdr rt (savefig rt [])" "\<forall>msg. smtp_session env msg = None"
  from send_email_report_empty [OF this]
  show "\<exists>m' w'. send_email_report rt m env w = (Inr m', w') \<and>
            length (outbox w') = length (outbox w) + 1"
    by blast
qed

theorem plot_usage_missing_or_empty_witness:
  "plot_usage tenths_runtime scenario_monitor empty_world =
     (Inl (FileNotFoundError ''usage_2024-01-01.csv''), empty_world) \<and>
   (\<exists>e. send_email_report tenths_runtime scenario_monitor delivering empty_world =
      (Inl e, empty_world)) \<and>
   fst (plot_usage tenths_runtime scenario_monitor empty_log_world) = Inr ''graph.png''"
proof -
  have a: "files empty_world (log_path scenario_monitor) = None"
    by (simp add: empty_world_def)
  have b: "files empty_log_world (log_path scenario_monitor) = Some []"
    by (simp add: scenario_log_path empty_log_world_def)
  show ?thesis
    using plot_usage_missing_or_empty [of empty_world scenario_monitor tenths_runtime delivering]
      plot_usage_missing_or_empty [of empty_log_world scenario_monitor tenths_runtime] a b
    unfolding scenario_log_path by simp
qed

lemma plot_usage_keeps_log:
  assumes "plot_usage rt m w = (r, w')"
  shows "files w' (log_path m) = files w (log_path m)"
  using assms
  by (auto simp: plot_usage_def Let_def log_path_not_graph split: sum.splits option.splits)

lemma files_recorded_absent:
  assumes "files w (log_path m) = None" "us \<noteq> []"
  shows "files (record_all rt m us w) (log_path m) =
     Some (concat (map (\<lambda>u. writerow [strftime_datetime (usage_now u), float_str rt (psutil_ram u),
                                float_str rt (psutil_cpu u)]) us))"
  using assms by (simp add: files_record_all)

text \<open>
  C6, as the code has it. Sampling and rendering never change what a log holds:
  \<open>write_to_csv\<close> puts one row after the bytes that are there, so that a log the
  Recorder alone has written is its rows and no header, and \<open>plot_usage\<close> leaves the log
  as it is. The report changes it: composing the mail writes the frame read from the
  log back over the log, header row first. So once the profile is queried and the chart
  rendered, a report whose mail the server refuses leaves on disk the header row
  \<open>Timestamp,RAM,CPU\<close> followed by the rows of the frame, each ended by the platform's
  line separator, and a report whose mail is delivered leaves no log at all.
\<close>

theorem log_changed_only_by_report:
  fixes rt m env w info df idx
  defines "png \<equiv> savefig rt (resample_mean rt (zip idx (map snd df)))"
  defines "msg \<equiv> \<lparr>msg_from = email m, msg_to = join '', '' (recipient_emails m),
       msg_subject = ''Daily CPU and RAM Usage Report | i-Tips'',
       msg_body = report_body rt info,
       msg_parts = [(''graph.png'', png), (basename (log_path m), to_csv rt df)]\<rparr>"
  shows "files (write_to_csv rt m ts ram cpu w) =
           (files w)(log_path m \<mapsto>
              (case files w (log_path m) of None \<Rightarrow> [] | Some old \<Rightarrow> old) @
              writerow [ts, float_str rt ram, float_str rt cpu]) \<and>
         (files w (log_path m) = None \<longrightarrow> us \<noteq> [] \<longrightarrow>
            files (record_all rt m us w) (log_path m) =
              Some (concat (map (\<lambda>u. writerow [strftime_datetime (usage_now u),
                                         float_str rt (psutil_ram u),
                                         float_str rt (psutil_cpu u)]) us))) \<and>
         (\<forall>r w'. plot_usage rt m w = (r, w') \<longrightarrow> files w' (log_path m) = files w (log_path m)) \<and>
         (get_system_info rt (host env) = Inr info \<longrightarrow>
          read_csv rt w (log_path m) = Inr df \<longrightarrow>
          those (map (\<lambda>r. strptime (fst r)) df) = Some idx \<longrightarrow>
          imghdr rt png \<longrightarrow>
            send_email_report rt m env w =
              (case smtp_session env msg of
                 None \<Rightarrow>
                   (Inr (m\<lparr>today := strftime_date (now_after env)\<rparr>),
                    w\<lparr>files := (files w)(''graph.png'' := None, log_path m := None),
                      outbox := outbox w @ [msg]\<rparr>)
               | Some e \<Rightarrow>
                   (Inl e,
                    w\<lparr>files := (files w)(''graph.png'' \<mapsto> png,
                                           log_path m \<mapsto> to_csv rt df)\<rparr>))) \<and>
         to_csv rt df = ''Timestamp,RAM,CPU'' @ linesep rt @
           concat (map (\<lambda>(ts, r, c).
                     join '','' (map csv_field [ts, float_str rt r, float_str rt c]) @ linesep rt)
                df)"
proof (intro conjI allI impI)
  show "files (write_to_csv rt m ts ram cpu w) =
           (files w)(log_path m \<mapsto>
              (case files w (log_path m) of None \<Rightarrow> [] | Some old \<Rightarrow> old) @
              writerow [ts, float_str rt ram, float_str rt cpu])"
    by (rule files_write_to_csv)
next
  assume "files w (log_path m) = None" "us \<noteq> []"
  then show "files (record_all rt m us w) (log_path m) =
              Some (concat (map (\<lambda>u. writerow [strftime_datetime (usage_now u),
                                         float_str rt (psutil_ram u),
                                         float_str rt (psutil_cpu u)]) us))"
    by (rule files_recorded_absent)
next
  fix r w'
  assume "plot_usage rt m w = (r, w')"
  then show "files w' (log_path m) = files w (log_path m)"
    by (rule plot_usage_keeps_log)
next
  assume "get_system_info rt (host env) = Inr info" "read_csv rt w (log_path m) = Inr df"
    "those (map (\<lambda>r. strptime (fst r)) df) = Some idx" "imghdr rt png"
  then show "send_email_report rt m env w =
              (case smtp_session env msg of
                 None \<Rightarrow>
                   (Inr (m\<lparr>today := strftime_date (now_after env)\<rparr>),
                    w\<lparr>files := (files w)(''graph.png'' := None, log_path m := None),
                      outbox := outbox w @ [msg]\<rparr>)
               | Some e \<Rightarrow>
                   (Inl e,
                    w\<lparr>files := (files w)(''graph.png'' \<mapsto> png,
                                           log_path m \<mapsto> to_csv rt df)\<rparr>))"
    unfolding png_def msg_def by (rule send_email_report_run)
next
  show "to_csv rt df = ''Timestamp,RAM,CPU'' @ linesep rt @
           concat (map (\<lambda>(ts, r, c).
                     join '','' (map csv_field [ts, float_str rt r, float_str rt c]) @ linesep rt)
                df)"
    by (rule to_csv_header)
qed

text \<open>
  On the scenario's log: rendering leaves the two rows as they are, and the report
  that is delivered leaves no log.
\<close>

theorem log_changed_only_by_report_witness:
  "files (snd (plot_usage tenths_runtime scenario_monitor
       (record_all tenths_runtime scenario_monitor [reading_a, reading_b] empty_world)))
     ''usage_2024-01-01.csv'' =
     Some (''2024-01-01 09:00:00,40.0,10.0'' @ [CHR 0x0D, CHR 0x0A] @
           ''2024-01-01 09:00:30,60.0,20.0'' @ [CHR 0x0D, CHR 0x0A]) \<and>
   (\<exists>m' w'. send_email_report tenths_runtime scenario_monitor delivering
       (record_all tenths_runtime scenario_monitor [reading_a, reading_b] empty_world) =
         (Inr m', w') \<and>
       files w' ''usage_2024-01-01.csv'' = None)"
proof -
  let ?w = "record_all tenths_runtime scenario_monitor [reading_a, reading_b] empty_world"
  obtain info where i: "get_system_info tenths_runtime scenario_host = Inr info"
    using scenario_host_info by blast
  have i1: "get_system_info tenths_runtime (host delivering) = Inr info"
    using i by (simp add: delivering_def)
  have x: "those (map (\<lambda>r. strptime (fst r)) (map get_usage [reading_a, reading_b])) =
      Some (map usage_now [reading_a, reading_b])"
    by (rule those_strptime) (rule scenario_readings_ok)
  have g: "imghdr tenths_runtime (savefig tenths_runtime c)" for c
    by (simp add: tenths_runtime_def)
  have d: "smtp_session delivering msg = None" for msg
    by (simp add: delivering_def)
  have p: "plot_usage tenths_runtime scenario_monitor ?w =
      (fst (plot_usage tenths_runtime scenario_monitor ?w),
       snd (plot_usage tenths_runtime scenario_monitor ?w))"
    by simp
  note t = log_changed_only_by_report [of tenths_runtime scenario_monitor _ _ _ ?w _
      delivering info "map get_usage [reading_a, reading_b]" "map usage_now [reading_a, reading_b]"]
  have "files (snd (plot_usage tenths_runtime scenario_monitor ?w)) (log_path scenario_monitor) =
      files ?w (log_path scenario_monitor)"
    using t p by blast
  moreover have "\<exists>m' w'. send_email_report tenths_runtime scenario_monitor delivering ?w =
      (Inr m', w') \<and> files w' (log_path scenario_monitor) = None"
    using t i1 scenario_read_csv x g unfolding d by (simp add: log_path_not_graph)
  ultimately show ?thesis
    unfolding scenario_log_path scenario_log by simp
qed

subsection \<open>Instants and calendar fields\<close>
















subsection \<open>Sorting by instant\<close>



lemma insort_key_map:
  "insort_key f (h x) (map h ys) = map h (insort_key (\<lambda>y. f (h y)) x ys)"
  by (induction ys) auto

lemma sort_key_map:
  "sort_key f (map h xs) = map h (sort_key (\<lambda>y. f (h y)) xs)"
  by (induction xs) (simp_all add: insort_key_map)

subsection \<open>The resampled frame\<close>


















end
